theory Spec2Isabelle
  imports
    Complex_Main
    "HOL-Library.AList"
    "HOL-Library.Multiset"
    "HOL-Library.Char_ord"
    "HOL-Library.List_Lexorder"
begin

section \<open>Data model (types of the application)\<close>

text \<open>
  A JavaScript \<open>number\<close> is modelled as the \<open>real\<close> that it denotes. The arithmetic of
  the clearing engine is read as exact arithmetic; the additions and the division of the
  hourly averager are rounded to binary64, since the order of the additions decides their
  result. A nullable number is a \<open>real option\<close> (\<open>None\<close> is \<open>null\<close>). Timestamps are the
  ISO strings the code uses as keys.
\<close>

datatype BidSide = BUY | SELL

text \<open>\<open>Omit<Bid, "id">\<close>, the argument of the store's \<open>addBid\<close>; \<open>Bid\<close> adds the id.\<close>

record BidData =
  hourStart :: string
  side :: BidSide
  price :: real
  qtyMWh :: real

record Bid = BidData +
  bid_id :: string

record MarketPrice =
  datetime_beginning_ept :: string
  datetime_beginning_utc :: string
  settlement_point :: string
  settlement_point_price :: real

record HourlyClear =
  clear_hourStart :: string
  daPrice :: "real option"
  avgRtPrice :: "real option"
  clearedQty :: real
  pnl :: real

text \<open>The element type of the result of \<open>averageRTToHourly\<close>.\<close>

record HourlyAverage =
  avg_hourStart :: string
  avgPrice :: real
  avg_settlement_point :: string

text \<open>The object returned by \<open>getClearingSummary\<close>.\<close>

record ClearingSummary =
  totalPnL :: real
  totalClearedQty :: real
  longQty :: real
  shortQty :: real
  hoursWithPositions :: nat
  hoursWithPnL :: nat
  avgPnLPerHour :: real

section \<open>JavaScript containers\<close>

text \<open>
  A \<open>Map<string, v>\<close> is an association list in insertion order with one entry per key:
  \<open>get\<close> is \<open>map_of\<close>, \<open>has k\<close> is \<open>map_of m k \<noteq> None\<close>, and \<open>set\<close> is
  \<open>AList.update\<close>, which overwrites the value of a key in place and appends a new key.
  A \<open>Set<string>\<close> is a list in insertion order; \<open>add\<close> ignores a member.
\<close>

definition set_add :: "string list \<Rightarrow> string \<Rightarrow> string list" where
  "set_add s h = (if h \<in> set s then s else s @ [h])"

text \<open>
  The step of the grouping loops of \<open>clearBids\<close> and \<open>averageRTToHourly\<close>:
  \<open>if (!m.has(k)) m.set(k, []); m.get(k)!.push(v)\<close>. The push mutates the array stored
  under \<open>k\<close>, which leaves the key where it is in the map.
\<close>

definition group_push :: "(string \<times> 'v list) list \<Rightarrow> string \<Rightarrow> 'v \<Rightarrow> (string \<times> 'v list) list" where
  "group_push m k v =
     (let m1 = (if map_of m k = None then AList.update k [] m else m)
      in case map_of m1 k of
           None \<Rightarrow> m1
         | Some vs \<Rightarrow> AList.update k (vs @ [v]) m1)"

section \<open>Binary64 arithmetic\<close>

text \<open>
  The sum and the quotient of two JavaScript numbers are the exact results rounded to the
  nearest binary64 value, ties to the even significand. \<open>binade a e\<close> searches from \<open>e\<close>
  for the exponent of \<open>a > 0\<close>, the \<open>e\<close> with \<open>2 powi e \<le> a < 2 powi (e + 1)\<close>, inside the
  exponent range \<open>-1022 .. 1023\<close> of the format (below it the numbers are subnormal and
  keep the exponent \<open>-1022\<close>). A value has 53 significant bits, so neighbouring values of
  exponent \<open>e\<close> are \<open>2 powi (e - 52)\<close> apart. Results of magnitude \<open>2 powi 1024\<close> and more
  (\<open>Infinity\<close> in JavaScript) and \<open>NaN\<close> are outside the model.
\<close>

function binade :: "real \<Rightarrow> int \<Rightarrow> int" where
  "binade a e =
     (if a < 2 powi e \<and> - 1022 < e then binade a (e - 1)
      else if 2 powi (e + 1) \<le> a \<and> e < 1023 then binade a (e + 1)
      else e)"
  by pat_completeness auto
termination
proof (relation "measures [\<lambda>(a, e). if a < 2 powi e then 1 else 0,
                            \<lambda>(a, e). if a < 2 powi e then nat (e + 1022) else nat (1023 - e)]")
  show "wf (measures [\<lambda>(a, e). if a < 2 powi e then 1 else 0,
                       \<lambda>(a, e::int). if a < (2::real) powi e then nat (e + 1022) else nat (1023 - e)])"
    by simp
next
  fix a :: real and e :: int
  assume "a < 2 powi e \<and> - 1022 < e"
  then show "((a, e - 1), (a, e)) \<in> measures [\<lambda>(a, e). if a < 2 powi e then 1 else 0,
                            \<lambda>(a, e). if a < 2 powi e then nat (e + 1022) else nat (1023 - e)]"
    by auto
next
  fix a :: real and e :: int
  assume "\<not> (a < 2 powi e \<and> - 1022 < e)" and h: "2 powi (e + 1) \<le> a \<and> e < 1023"
  have "(2::real) powi e \<le> 2 powi (e + 1)"
    by (rule power_int_increasing) simp_all
  with h have "\<not> a < 2 powi e" "\<not> a < 2 powi (e + 1)" by simp_all
  with h show "((a, e + 1), (a, e)) \<in> measures [\<lambda>(a, e). if a < 2 powi e then 1 else 0,
                            \<lambda>(a, e). if a < 2 powi e then nat (e + 1022) else nat (1023 - e)]"
    by auto
qed

text \<open>The nearest integer, a tie going to the even one.\<close>

definition rne :: "real \<Rightarrow> int" where
  "rne y =
     (let f = \<lfloor>y\<rfloor>; d = y - of_int f
      in if d < 1 / 2 then f
         else if d > 1 / 2 then f + 1
         else if even f then f else f + 1)"

definition round_double :: "real \<Rightarrow> real" where
  "round_double x =
     (if x = 0 then 0
      else let q = binade \<bar>x\<bar> 0 - 52
           in of_int (rne (x / 2 powi q)) * 2 powi q)"

text \<open>The JavaScript operators \<open>+\<close> and \<open>/\<close> on numbers.\<close>

definition double_add :: "real \<Rightarrow> real \<Rightarrow> real" where
  "double_add x y = round_double (x + y)"

definition double_div :: "real \<Rightarrow> real \<Rightarrow> real" where
  "double_div x y = round_double (x / y)"

section \<open>Hourly averaging of real-time prices (utils/time.ts)\<close>

text \<open>
  \<open>toHour\<close> stands for the library expression
  \<open>DateTime.fromISO(s).setZone(MARKET_TIMEZONE).startOf("hour").toISO()\<close>, the ISO string
  of the market-local clock hour that contains the timestamp \<open>s\<close>. It is a parameter of the
  model.
\<close>

definition hourlyGroups ::
  "(string \<Rightarrow> string) \<Rightarrow> MarketPrice list \<Rightarrow> (string \<times> (real \<times> string) list) list" where
  "hourlyGroups toHour rtData =
     foldl (\<lambda>groups point.
              group_push groups (toHour (datetime_beginning_ept point))
                (settlement_point_price point, settlement_point point))
       [] rtData"

definition hourlyAverage :: "string \<times> (real \<times> string) list \<Rightarrow> HourlyAverage list" where
  "hourlyAverage g =
     (case g of (hour, points) \<Rightarrow>
        if length points > 0
        then [\<lparr>avg_hourStart = hour,
               avgPrice =
                 double_div (foldl (\<lambda>sum p. double_add sum (fst p)) 0 points)
                   (real (length points)),
               avg_settlement_point = snd (hd points)\<rparr>]
        else [])"

definition averageRTToHourly :: "(string \<Rightarrow> string) \<Rightarrow> MarketPrice list \<Rightarrow> HourlyAverage list" where
  "averageRTToHourly toHour rtData =
     sort_key avg_hourStart (concat (map hourlyAverage (hourlyGroups toHour rtData)))"

section \<open>The clearing engine (utils/clearing.ts)\<close>

definition shouldBidClear :: "Bid \<Rightarrow> real \<Rightarrow> bool" where
  "shouldBidClear bid da =
     (case side bid of
        BUY \<Rightarrow> price bid \<ge> da
      | SELL \<Rightarrow> price bid \<le> da)"

definition bidsByHour :: "Bid list \<Rightarrow> (string \<times> Bid list) list" where
  "bidsByHour bids = foldl (\<lambda>m bid. group_push m (hourStart bid) bid) [] bids"

definition daPricesByHour :: "MarketPrice list \<Rightarrow> (string \<times> real) list" where
  "daPricesByHour daHourlyPrices =
     foldl (\<lambda>m p. AList.update (datetime_beginning_ept p) (settlement_point_price p) m)
       [] daHourlyPrices"

definition rtPricesByHour :: "HourlyAverage list \<Rightarrow> (string \<times> real) list" where
  "rtPricesByHour rtHourlyAverages =
     foldl (\<lambda>m a. AList.update (avg_hourStart a) (avgPrice a) m) [] rtHourlyAverages"

definition allHours :: "(string \<times> Bid list) list \<Rightarrow> MarketPrice list \<Rightarrow> string list" where
  "allHours byHour daHourlyPrices =
     foldl (\<lambda>s p. set_add s (datetime_beginning_ept p))
       (foldl (\<lambda>s e. set_add s (fst e)) [] byHour)
       daHourlyPrices"

text \<open>The body of the loop over \<open>allHours\<close>: the record pushed for one hour.\<close>

definition clearHour ::
  "(string \<times> Bid list) list \<Rightarrow> (string \<times> real) list \<Rightarrow> (string \<times> real) list \<Rightarrow> string
     \<Rightarrow> HourlyClear" where
  "clearHour byHour daByHour rtByHour hour =
     (let hourBids = (case map_of byHour hour of Some bs \<Rightarrow> bs | None \<Rightarrow> []);
          da = map_of daByHour hour;
          rt = map_of rtByHour hour;
          qty = (case da of
                   None \<Rightarrow> 0
                 | Some d \<Rightarrow>
                     foldl (\<lambda>q bid.
                              if shouldBidClear bid d
                              then q + (if side bid = BUY then qtyMWh bid else - qtyMWh bid)
                              else q)
                       0 hourBids);
          p = (case da of
                 None \<Rightarrow> 0
               | Some d \<Rightarrow>
                   (case rt of
                      None \<Rightarrow> 0
                    | Some a \<Rightarrow> if qty \<noteq> 0 then qty * (a - d) else 0))
      in \<lparr>clear_hourStart = hour, daPrice = da, avgRtPrice = rt, clearedQty = qty, pnl = p\<rparr>)"

definition clearBids ::
  "(string \<Rightarrow> string) \<Rightarrow> Bid list \<Rightarrow> MarketPrice list \<Rightarrow> MarketPrice list \<Rightarrow> HourlyClear list" where
  "clearBids toHour bids daHourlyPrices rtFiveMinPrices =
     (let byHour = bidsByHour bids;
          daByHour = daPricesByHour daHourlyPrices;
          rtByHour = rtPricesByHour (averageRTToHourly toHour rtFiveMinPrices)
      in sort_key clear_hourStart
           (map (clearHour byHour daByHour rtByHour) (allHours byHour daHourlyPrices)))"

definition calculateTotalPnL :: "HourlyClear list \<Rightarrow> real" where
  "calculateTotalPnL hourlyClears = foldl (\<lambda>total c. total + pnl c) 0 hourlyClears"

definition calculateTotalClearedQty :: "HourlyClear list \<Rightarrow> real" where
  "calculateTotalClearedQty hourlyClears =
     foldl (\<lambda>total c. total + \<bar>clearedQty c\<bar>) 0 hourlyClears"

definition getClearingSummary :: "HourlyClear list \<Rightarrow> ClearingSummary" where
  "getClearingSummary hourlyClears =
     (let tPnL = calculateTotalPnL hourlyClears;
          tQty = calculateTotalClearedQty hourlyClears;
          nPos = length (filter (\<lambda>c. clearedQty c \<noteq> 0) hourlyClears);
          nPnL = length (filter (\<lambda>c. pnl c \<noteq> 0) hourlyClears);
          lQty = foldl (\<lambda>sum c. sum + clearedQty c) 0
                   (filter (\<lambda>c. clearedQty c > 0) hourlyClears);
          sQty = foldl (\<lambda>sum c. sum + \<bar>clearedQty c\<bar>) 0
                   (filter (\<lambda>c. clearedQty c < 0) hourlyClears)
      in \<lparr>totalPnL = tPnL,
          totalClearedQty = tQty,
          longQty = lQty,
          shortQty = sQty,
          hoursWithPositions = nPos,
          hoursWithPnL = nPnL,
          avgPnLPerHour = (if nPnL > 0 then tPnL / real nPnL else 0)\<rparr>)"

section \<open>The cutoff calculator (utils/time.ts)\<close>

text \<open>
  The date library is not part of the repository; the model covers the operations that
  \<open>getCutoffTime\<close> and \<open>getCutoffStatus\<close> call, for a trading date written as a bare
  calendar date \<open>YYYY-MM-DD\<close>. An instant is a number of milliseconds since the epoch. A
  zone is given by its offset from UTC in minutes (\<open>-360\<close> for America/Chicago on
  standard time, \<open>0\<close> for UTC), taken as constant over the days involved. Two zones
  enter: the zone of the process that runs the code (the library's default zone, in which
  \<open>DateTime.fromISO\<close> reads a string that carries no offset) and the market zone.
\<close>

record CalendarDate =
  year :: int
  month :: int
  day :: int

record DateTime =
  ts :: int
  zone_offset :: int

record CutoffStatus =
  isCutoffPassed :: bool
  cutoffTime :: DateTime
  currentTime :: DateTime
  timeToString :: string

definition CUTOFF_HOUR :: int where
  "CUTOFF_HOUR = 11"

definition CUTOFF_MINUTE :: int where
  "CUTOFF_MINUTE = 0"

text \<open>Days from 1970-01-01 to a date of the proleptic Gregorian calendar.\<close>

definition days_from_civil :: "CalendarDate \<Rightarrow> int" where
  "days_from_civil d =
     (let y = (if month d \<le> 2 then year d - 1 else year d);
          era = y div 400;
          yoe = y - era * 400;
          doy = (153 * (if month d > 2 then month d - 3 else month d + 9) + 2) div 5 + day d - 1;
          doe = yoe * 365 + yoe div 4 - yoe div 100 + doy
      in era * 146097 + doe - 719468)"

text \<open>The wall-clock reading of a \<open>DateTime\<close> in its zone, as milliseconds.\<close>

definition localTS :: "DateTime \<Rightarrow> int" where
  "localTS dt = ts dt + zone_offset dt * 60000"

text \<open>
  \<open>DateTime.fromISO\<close> on a bare date: midnight of that date in the default zone.
\<close>

definition fromISO_date :: "int \<Rightarrow> CalendarDate \<Rightarrow> DateTime" where
  "fromISO_date defaultOffset d =
     \<lparr>ts = days_from_civil d * 86400000 - defaultOffset * 60000, zone_offset = defaultOffset\<rparr>"

text \<open>\<open>setZone\<close> keeps the instant and changes the zone of the reading.\<close>

definition setZone :: "int \<Rightarrow> DateTime \<Rightarrow> DateTime" where
  "setZone offset dt = dt\<lparr>zone_offset := offset\<rparr>"

text \<open>
  \<open>set({hour, minute, second, millisecond})\<close> keeps the local calendar date of the
  reading and replaces its time of day.
\<close>

definition set_time :: "int \<Rightarrow> int \<Rightarrow> int \<Rightarrow> int \<Rightarrow> DateTime \<Rightarrow> DateTime" where
  "set_time h m s ms dt =
     dt\<lparr>ts := (localTS dt div 86400000) * 86400000
                 + h * 3600000 + m * 60000 + s * 1000 + ms
                 - zone_offset dt * 60000\<rparr>"

definition two_digits :: "int \<Rightarrow> string" where
  "two_digits n = [''0123456789'' ! nat (n div 10), ''0123456789'' ! nat (n mod 10)]"

definition toFormat_HHmm :: "DateTime \<Rightarrow> string" where
  "toFormat_HHmm dt =
     (let t = localTS dt mod 86400000
      in two_digits (t div 3600000) @ '':'' @ two_digits ((t mod 3600000) div 60000))"

text \<open>\<open>now\<close> is the instant that \<open>DateTime.now()\<close> reads from the clock.\<close>

definition getCurrentMarketTime :: "int \<Rightarrow> int \<Rightarrow> int \<Rightarrow> DateTime" where
  "getCurrentMarketTime defaultOffset marketOffset now =
     setZone marketOffset \<lparr>ts = now, zone_offset = defaultOffset\<rparr>"

definition getCutoffTime :: "int \<Rightarrow> int \<Rightarrow> CalendarDate \<Rightarrow> DateTime" where
  "getCutoffTime defaultOffset marketOffset tradingDate =
     set_time CUTOFF_HOUR CUTOFF_MINUTE 0 0
       (setZone marketOffset (fromISO_date defaultOffset tradingDate))"

definition getCutoffStatus :: "int \<Rightarrow> int \<Rightarrow> int \<Rightarrow> CalendarDate \<Rightarrow> CutoffStatus" where
  "getCutoffStatus defaultOffset marketOffset now tradingDate =
     (let current = getCurrentMarketTime defaultOffset marketOffset now;
          cutoff = getCutoffTime defaultOffset marketOffset tradingDate;
          passed = (ts current > ts cutoff)
      in \<lparr>isCutoffPassed = passed,
          cutoffTime = cutoff,
          currentTime = current,
          timeToString =
            (if passed then ''Order entry closed''
             else ''Order entry open until '' @ toFormat_HHmm cutoff @ '' CT'')\<rparr>)"

text \<open>
  The cutoff instant as the specification words it: 11:00:00.000 market-local time on the
  calendar date \<open>tradingDate\<close> itself.
\<close>

definition spec_cutoffInstant :: "int \<Rightarrow> CalendarDate \<Rightarrow> int" where
  "spec_cutoffInstant marketOffset tradingDate =
     days_from_civil tradingDate * 86400000 + 11 * 3600000 - marketOffset * 60000"

section \<open>The bid store\<close>

record MarketSelection =
  iso :: string
  settlementPoint :: string
  tradingDate :: string

record MarketData =
  daHourly :: "MarketPrice list"
  rtFiveMin :: "MarketPrice list"

record AppState =
  marketSelection :: MarketSelection
  bids :: "Bid list"
  marketData :: MarketData
  hourlyClears :: "HourlyClear list"
  isLoading :: bool
  error :: "string option"

definition initialState :: AppState where
  "initialState =
     \<lparr>marketSelection =
        \<lparr>iso = ''ercot'', settlementPoint = ''HB_HOUSTON'', tradingDate = ''2024-12-01''\<rparr>,
      bids = [],
      marketData = \<lparr>daHourly = [], rtFiveMin = []\<rparr>,
      hourlyClears = [],
      isLoading = False,
      error = None\<rparr>"

text \<open>
  \<open>uuid\<close> is the value that \<open>crypto.randomUUID()\<close> returns in this call. Each action
  maps the state to the state that the store holds after it.
\<close>

definition addBid :: "string \<Rightarrow> BidData \<Rightarrow> AppState \<Rightarrow> AppState" where
  "addBid uuid bidData state =
     (let bid = \<lparr>hourStart = hourStart bidData, side = side bidData, price = price bidData,
                 qtyMWh = qtyMWh bidData, bid_id = uuid\<rparr>;
          existingBidsForHour = filter (\<lambda>b. hourStart b = hourStart bid) (bids state)
      in if length existingBidsForHour \<ge> 10
         then state\<lparr>error := Some ''Maximum 10 bids per hour allowed''\<rparr>
         else state\<lparr>bids := bids state @ [bid], error := None\<rparr>)"

definition removeBid :: "string \<Rightarrow> AppState \<Rightarrow> AppState" where
  "removeBid bidId state = state\<lparr>bids := filter (\<lambda>bid. bid_id bid \<noteq> bidId) (bids state)\<rparr>"

definition store_clearBids :: "AppState \<Rightarrow> AppState" where
  "store_clearBids state = state\<lparr>bids := []\<rparr>"

definition resetForNewDate :: "AppState \<Rightarrow> AppState" where
  "resetForNewDate state =
     state\<lparr>bids := [],
           marketData := \<lparr>daHourly = [], rtFiveMin = []\<rparr>,
           hourlyClears := [],
           error := None\<rparr>"

text \<open>The states that the store reaches from its initial state by these four actions.\<close>

inductive reachable :: "AppState \<Rightarrow> bool" where
  reach_init: "reachable initialState"
| reach_addBid: "reachable s \<Longrightarrow> reachable (addBid uuid bidData s)"
| reach_removeBid: "reachable s \<Longrightarrow> reachable (removeBid bidId s)"
| reach_clearBids: "reachable s \<Longrightarrow> reachable (store_clearBids s)"
| reach_resetForNewDate: "reachable s \<Longrightarrow> reachable (resetForNewDate s)"

section \<open>Reference data\<close>

text \<open>The fixtures of the repository's clearing test, and the inputs of the examples.\<close>

definition h08 :: string where
  "h08 = ''2024-01-01T08:00:00.000-06:00''"

definition h09 :: string where
  "h09 = ''2024-01-01T09:00:00.000-06:00''"

definition mockBids :: "Bid list" where
  "mockBids =
     [\<lparr>hourStart = h08, side = BUY, price = 60, qtyMWh = 100, bid_id = ''1''\<rparr>,
      \<lparr>hourStart = h08, side = SELL, price = 50, qtyMWh = 50, bid_id = ''2''\<rparr>,
      \<lparr>hourStart = h09, side = BUY, price = 40, qtyMWh = 75, bid_id = ''3''\<rparr>]"

definition mockDAPrices :: "MarketPrice list" where
  "mockDAPrices =
     [\<lparr>datetime_beginning_ept = h08, datetime_beginning_utc = ''2024-01-01T14:00:00.000Z'',
        settlement_point = ''HB_HOUSTON'', settlement_point_price = 55\<rparr>,
      \<lparr>datetime_beginning_ept = h09, datetime_beginning_utc = ''2024-01-01T15:00:00.000Z'',
        settlement_point = ''HB_HOUSTON'', settlement_point_price = 35\<rparr>]"

definition mockRTPrices :: "MarketPrice list" where
  "mockRTPrices =
     [\<lparr>datetime_beginning_ept = h08, datetime_beginning_utc = ''2024-01-01T14:00:00.000Z'',
        settlement_point = ''HB_HOUSTON'', settlement_point_price = 60\<rparr>,
      \<lparr>datetime_beginning_ept = h09, datetime_beginning_utc = ''2024-01-01T15:00:00.000Z'',
        settlement_point = ''HB_HOUSTON'', settlement_point_price = 40\<rparr>]"

definition mockClear08 :: HourlyClear where
  "mockClear08 =
     \<lparr>clear_hourStart = h08, daPrice = Some 55, avgRtPrice = Some 60, clearedQty = 50, pnl = 250\<rparr>"

definition mockClear09 :: HourlyClear where
  "mockClear09 =
     \<lparr>clear_hourStart = h09, daPrice = Some 35, avgRtPrice = Some 40, clearedQty = 75, pnl = 375\<rparr>"

text \<open>The record of hour 08:00 when no price is known.\<close>

definition mockNoPrice08 :: HourlyClear where
  "mockNoPrice08 =
     \<lparr>clear_hourStart = h08, daPrice = None, avgRtPrice = None, clearedQty = 0, pnl = 0\<rparr>"

text \<open>
  An instance of \<open>toHour\<close> for timestamps of the form \<open>YYYY-MM-DDTHH:MM:SS.mmm+HH:MM\<close>
  that already carry the market's offset: the hour start keeps date, hour and offset and
  zeroes minutes, seconds and milliseconds.
\<close>

definition startOfHour_sameOffset :: "string \<Rightarrow> string" where
  "startOfHour_sameOffset s = take 14 s @ ''00:00.000'' @ drop 23 s"







text \<open>A bid for hour 08:00, and the store after ten such bids were added.\<close>

definition bidData08 :: BidData where
  "bidData08 = \<lparr>hourStart = h08, side = BUY, price = 60, qtyMWh = 100\<rparr>"

definition fullHourState :: AppState where
  "fullHourState =
     foldl (\<lambda>s uuid. addBid uuid bidData08 s) initialState
       [''a'', ''b'', ''c'', ''d'', ''e'', ''f'', ''g'', ''h'', ''i'', ''j'']"

text \<open>The trading date 2024-01-01 and 10:00 market time (16:00 UTC) on that day.\<close>

definition newYear2024 :: CalendarDate where
  "newYear2024 = \<lparr>year = 2024, month = 1, day = 1\<rparr>"

definition tenAM_CST_newYear2024 :: int where
  "tenAM_CST_newYear2024 = 19723 * 86400000 + 16 * 3600000"

section \<open>Closed form of the hourly average\<close>


section \<open>Properties of the containers\<close>

lemma map_of_group_push:
  "map_of (group_push m k v) k' =
     (if k' = k then Some ((case map_of m k of None \<Rightarrow> [] | Some vs \<Rightarrow> vs) @ [v])
      else map_of m k')"
  by (simp add: group_push_def Let_def update_conv' split: option.splits)

lemma keys_group_push: "fst ` set (group_push m k v) = insert k (fst ` set m)"
  by (auto simp: group_push_def Let_def dom_update split: option.splits)


text \<open>
  After the grouping loop, a key holds the values of the elements with that key, in input
  order, behind what it held before.
\<close>

lemma map_of_group_fold:
  "map_of (foldl (\<lambda>m x. group_push m (key x) (val x)) m xs) k =
     (case map_of m k of
        None \<Rightarrow> (if filter (\<lambda>x. key x = k) xs = [] then None
                 else Some (map val (filter (\<lambda>x. key x = k) xs)))
      | Some vs \<Rightarrow> Some (vs @ map val (filter (\<lambda>x. key x = k) xs)))"
proof (induction xs arbitrary: m)
  case Nil
  then show ?case by (simp split: option.splits)
next
  case (Cons x xs)
  show ?case
    by (simp add: Cons.IH map_of_group_push split: option.splits)
qed

lemma keys_group_fold:
  "fst ` set (foldl (\<lambda>m x. group_push m (key x) (val x)) m xs) = fst ` set m \<union> key ` set xs"
  by (induction xs arbitrary: m) (auto simp: keys_group_push)


lemma set_set_add_fold:
  "set (foldl (\<lambda>s x. set_add s (f x)) s0 xs) = set s0 \<union> f ` set xs"
  by (induction xs arbitrary: s0) (auto simp: set_add_def)

lemma distinct_set_add_fold:
  "distinct s0 \<Longrightarrow> distinct (foldl (\<lambda>s x. set_add s (f x)) s0 xs)"
  by (induction xs arbitrary: s0) (auto simp: set_add_def)

lemma dom_update_fold:
  "dom (map_of (foldl (\<lambda>m x. AList.update (key x) (val x) m) m0 xs)) =
     dom (map_of m0) \<union> key ` set xs"
  by (induction xs arbitrary: m0) (auto simp: update_conv')

lemma foldl_plus_sum_list:
  "foldl (\<lambda>acc x. acc + f x) (a::real) xs = a + sum_list (map f xs)"
  by (induction xs arbitrary: a) auto


section \<open>Properties of the clearing engine\<close>

lemma map_of_bidsByHour:
  "map_of (bidsByHour bs) h =
     (if filter (\<lambda>b. hourStart b = h) bs = [] then None
      else Some (filter (\<lambda>b. hourStart b = h) bs))"
  using map_of_group_fold [of hourStart "\<lambda>b. b" "[]" bs h]
  by (simp add: bidsByHour_def)

lemma keys_bidsByHour: "fst ` set (bidsByHour bs) = hourStart ` set bs"
  using keys_group_fold [of hourStart "\<lambda>b. b" "[]" bs]
  by (simp add: bidsByHour_def)

lemma hourBids_bidsByHour:
  "(case map_of (bidsByHour bs) h of Some hbs \<Rightarrow> hbs | None \<Rightarrow> []) =
     filter (\<lambda>b. hourStart b = h) bs"
  by (simp add: map_of_bidsByHour)

lemma set_allHours:
  "set (allHours (bidsByHour bs) da) = hourStart ` set bs \<union> datetime_beginning_ept ` set da"
  by (simp add: allHours_def set_set_add_fold keys_bidsByHour)

lemma distinct_allHours: "distinct (allHours byHour da)"
  by (simp add: allHours_def distinct_set_add_fold)

lemma dom_daPricesByHour:
  "dom (map_of (daPricesByHour da)) = datetime_beginning_ept ` set da"
  by (simp add: daPricesByHour_def dom_update_fold)

lemma foldl_clear_sum:
  "foldl (\<lambda>q bid. if shouldBidClear bid d
                   then q + (if side bid = BUY then qtyMWh bid else - qtyMWh bid) else q) q0 hbs =
   q0 + (\<Sum>bid\<leftarrow>hbs. if shouldBidClear bid d
                         then (if side bid = BUY then qtyMWh bid else - qtyMWh bid) else 0)"
  by (induction hbs arbitrary: q0) auto

lemma clear_hourStart_clearHour: "clear_hourStart (clearHour byHour daByHour rtByHour h) = h"
  by (simp add: clearHour_def Let_def)

lemma daPrice_clearHour: "daPrice (clearHour byHour daByHour rtByHour h) = map_of daByHour h"
  by (simp add: clearHour_def Let_def)

lemma avgRtPrice_clearHour: "avgRtPrice (clearHour byHour daByHour rtByHour h) = map_of rtByHour h"
  by (simp add: clearHour_def Let_def)

lemma clearedQty_clearHour:
  "clearedQty (clearHour (bidsByHour bs) daByHour rtByHour h) =
     (case map_of daByHour h of
        None \<Rightarrow> 0
      | Some d \<Rightarrow>
          (\<Sum>bid\<leftarrow>filter (\<lambda>b. hourStart b = h) bs.
             if shouldBidClear bid d
             then (if side bid = BUY then qtyMWh bid else - qtyMWh bid) else 0))"
  by (simp add: clearHour_def Let_def hourBids_bidsByHour foldl_clear_sum split: option.splits)

lemma pnl_clearHour:
  "pnl (clearHour byHour daByHour rtByHour h) =
     (case map_of daByHour h of
        None \<Rightarrow> 0
      | Some d \<Rightarrow>
          (case map_of rtByHour h of
             None \<Rightarrow> 0
           | Some a \<Rightarrow>
               if clearedQty (clearHour byHour daByHour rtByHour h) \<noteq> 0
               then clearedQty (clearHour byHour daByHour rtByHour h) * (a - d) else 0))"
  by (simp add: clearHour_def Let_def split: option.splits)

text \<open>Every output record is the record computed for one of the enumerated hours.\<close>

lemma set_clearBids:
  "set (clearBids toHour bs da rt) =
     clearHour (bidsByHour bs) (daPricesByHour da)
       (rtPricesByHour (averageRTToHourly toHour rt))
       ` (hourStart ` set bs \<union> datetime_beginning_ept ` set da)"
  by (simp add: clearBids_def Let_def set_allHours)

lemma in_clearBidsE:
  assumes "r \<in> set (clearBids toHour bs da rt)"
  obtains h where
    "r = clearHour (bidsByHour bs) (daPricesByHour da)
           (rtPricesByHour (averageRTToHourly toHour rt)) h"
    "h \<in> hourStart ` set bs \<union> datetime_beginning_ept ` set da"
  using assms unfolding set_clearBids by blast

section \<open>The reference scenario, evaluated\<close>

lemma h08_h09: "h08 \<noteq> h09" "h09 \<noteq> h08" "h08 \<le> h09" "\<not> h09 \<le> h08"
  by (simp_all add: h08_def h09_def less_eq_char_def less_char_def)

lemma startOfHour_sameOffset_mock:
  "startOfHour_sameOffset h08 = h08" "startOfHour_sameOffset h09 = h09"
  by (simp_all add: startOfHour_sameOffset_def h08_def h09_def)

text \<open>Rounding leaves the numbers of the fixtures as they are.\<close>

lemma round_double_fixtures:
  "round_double 40 = 40" "round_double 50 = 50" "round_double 60 = 60"
  "round_double 120 = 120"
  by (simp_all add: round_double_def rne_def Let_def)

lemma averageRTToHourly_mock:
  assumes "toHour h08 = h08" "toHour h09 = h09"
  shows "averageRTToHourly toHour mockRTPrices =
    [\<lparr>avg_hourStart = h08, avgPrice = 60, avg_settlement_point = ''HB_HOUSTON''\<rparr>,
     \<lparr>avg_hourStart = h09, avgPrice = 40, avg_settlement_point = ''HB_HOUSTON''\<rparr>]"
  using assms h08_h09
  by (simp add: averageRTToHourly_def hourlyGroups_def mockRTPrices_def group_push_def
      hourlyAverage_def double_add_def double_div_def round_double_fixtures)

lemma clearBids_mock:
  assumes "toHour h08 = h08" "toHour h09 = h09"
  shows "clearBids toHour mockBids mockDAPrices mockRTPrices = [mockClear08, mockClear09]"
  using h08_h09
  by (simp add: clearBids_def averageRTToHourly_mock [OF assms] bidsByHour_def
      daPricesByHour_def rtPricesByHour_def allHours_def set_add_def clearHour_def
      shouldBidClear_def mockBids_def mockDAPrices_def group_push_def
      mockClear08_def mockClear09_def)

lemma clearBids_mock_no_prices:
  "clearBids toHour mockBids [] [] =
     [\<lparr>clear_hourStart = h08, daPrice = None, avgRtPrice = None, clearedQty = 0, pnl = 0\<rparr>,
      \<lparr>clear_hourStart = h09, daPrice = None, avgRtPrice = None, clearedQty = 0, pnl = 0\<rparr>]"
  using h08_h09
  by (simp add: clearBids_def averageRTToHourly_def hourlyGroups_def bidsByHour_def
      daPricesByHour_def rtPricesByHour_def allHours_def set_add_def clearHour_def
      mockBids_def group_push_def)

section \<open>The clearing rule\<close>



text \<open>
  C2. In every output record, \<open>pnl\<close> is \<open>clearedQty * (avgRtPrice - daPrice)\<close> when both
  prices are present and the cleared quantity is not zero, and \<open>0\<close> when the day-ahead
  price is absent, the real-time average is absent, or the cleared quantity is zero.
\<close>

theorem C2_pnl_formula:
  "\<forall>r\<in>set (clearBids toHour bs da rt).
     (\<forall>d a. daPrice r = Some d \<and> avgRtPrice r = Some a \<and> clearedQty r \<noteq> 0 \<longrightarrow>
        pnl r = clearedQty r * (a - d)) \<and>
     (daPrice r = None \<or> avgRtPrice r = None \<or> clearedQty r = 0 \<longrightarrow> pnl r = 0)"
proof
  fix r
  assume "r \<in> set (clearBids toHour bs da rt)"
  then obtain h where
    h: "r = clearHour (bidsByHour bs) (daPricesByHour da)
              (rtPricesByHour (averageRTToHourly toHour rt)) h"
    by (rule in_clearBidsE)
  show "(\<forall>d a. daPrice r = Some d \<and> avgRtPrice r = Some a \<and> clearedQty r \<noteq> 0 \<longrightarrow>
        pnl r = clearedQty r * (a - d)) \<and>
     (daPrice r = None \<or> avgRtPrice r = None \<or> clearedQty r = 0 \<longrightarrow> pnl r = 0)"
    unfolding h
    by (auto simp: pnl_clearHour daPrice_clearHour avgRtPrice_clearHour split: option.splits)
qed

theorem C2_pnl_formula_witness:
  "mockClear08 \<in> set (clearBids startOfHour_sameOffset mockBids mockDAPrices mockRTPrices) \<and>
   daPrice mockClear08 = Some 55 \<and> avgRtPrice mockClear08 = Some 60 \<and>
   clearedQty mockClear08 \<noteq> 0 \<and>
   pnl mockClear08 = clearedQty mockClear08 * (60 - 55)"
  using C2_pnl_formula [of startOfHour_sameOffset mockBids mockDAPrices mockRTPrices]
  by (simp add: clearBids_mock [OF startOfHour_sameOffset_mock] mockClear08_def)

section \<open>The hours of the output\<close>

lemma map_clear_hourStart_clearBids:
  "mset (map clear_hourStart (clearBids toHour bs da rt)) =
     mset (allHours (bidsByHour bs) da)"
proof -
  let ?f = "clearHour (bidsByHour bs) (daPricesByHour da)
              (rtPricesByHour (averageRTToHourly toHour rt))"
  have "map clear_hourStart (map ?f (allHours (bidsByHour bs) da)) = allHours (bidsByHour bs) da"
    by (simp add: comp_def clear_hourStart_clearHour)
  then have "mset (map clear_hourStart (map ?f (allHours (bidsByHour bs) da))) =
      mset (allHours (bidsByHour bs) da)"
    by (simp only:)
  then show ?thesis
    by (simp only: clearBids_def Let_def mset_map mset_sort)
qed

text \<open>
  C4. The hours of the output records are exactly the hours that carry a bid together
  with the hours that carry a day-ahead price. The real-time prices have no influence on
  this set: an hour with real-time data only is not in the output, and no other hour is
  made up.
\<close>

theorem C4_output_hours:
  "clear_hourStart ` set (clearBids toHour bs da rt) =
     hourStart ` set bs \<union> datetime_beginning_ept ` set da"
proof -
  have "set (map clear_hourStart (clearBids toHour bs da rt)) =
      set (allHours (bidsByHour bs) da)"
    using map_clear_hourStart_clearBids [of toHour bs da rt] by (rule mset_eq_setD)
  then show ?thesis
    by (simp add: set_allHours)
qed

theorem C4_output_hours_witness:
  "clear_hourStart ` set (clearBids startOfHour_sameOffset [hd mockBids] [] mockRTPrices) = {h08}"
  using C4_output_hours [of startOfHour_sameOffset "[hd mockBids]" "[]" mockRTPrices]
  by (simp add: mockBids_def)

text \<open>
  C10. The hours of the output records are pairwise distinct, whatever the number of
  bids of one hour and whatever the number of day-ahead points of one hour.
\<close>

theorem C10_distinct_hours:
  "distinct (map clear_hourStart (clearBids toHour bs da rt))"
  using mset_eq_imp_distinct_iff [OF map_clear_hourStart_clearBids [of toHour bs da rt]]
    distinct_allHours [of "bidsByHour bs" da]
  by (simp only:)

theorem C10_distinct_hours_witness:
  "distinct (map clear_hourStart
     (clearBids startOfHour_sameOffset (mockBids @ mockBids) (mockDAPrices @ mockDAPrices)
        mockRTPrices)) \<and>
   length (clearBids startOfHour_sameOffset (mockBids @ mockBids) (mockDAPrices @ mockDAPrices)
        mockRTPrices) = 2"
proof -
  have "mset (map clear_hourStart
     (clearBids startOfHour_sameOffset (mockBids @ mockBids) (mockDAPrices @ mockDAPrices)
        mockRTPrices)) = mset (allHours (bidsByHour (mockBids @ mockBids)) (mockDAPrices @ mockDAPrices))"
    by (rule map_clear_hourStart_clearBids)
  from arg_cong [OF this, of size]
  have "length (clearBids startOfHour_sameOffset (mockBids @ mockBids)
      (mockDAPrices @ mockDAPrices) mockRTPrices) =
      length (allHours (bidsByHour (mockBids @ mockBids)) (mockDAPrices @ mockDAPrices))"
    by (simp only: size_mset length_map)
  also have "\<dots> = 2"
    using h08_h09
    by (simp add: allHours_def bidsByHour_def mockBids_def mockDAPrices_def group_push_def
        set_add_def)
  finally show ?thesis
    using C10_distinct_hours [of startOfHour_sameOffset "mockBids @ mockBids"
        "mockDAPrices @ mockDAPrices" mockRTPrices]
    by simp
qed

section \<open>Missing prices\<close>

text \<open>
  C5. An output record whose hour has no day-ahead point has no \<open>daPrice\<close>, and every
  output record without \<open>daPrice\<close> has \<open>clearedQty = 0\<close> and \<open>pnl = 0\<close>, whatever the bids
  of its hour are. With bids and empty price lists the output has one record for each
  hour of a bid, and every record has no \<open>daPrice\<close>, no \<open>avgRtPrice\<close>,
  \<open>clearedQty = 0\<close> and \<open>pnl = 0\<close>. The function is total: it returns a list for every
  input and has no error result.
\<close>

theorem C5_missing_prices:
  "(\<forall>r\<in>set (clearBids toHour bs da rt).
      (clear_hourStart r \<notin> datetime_beginning_ept ` set da \<longrightarrow> daPrice r = None) \<and>
      (daPrice r = None \<longrightarrow> clearedQty r = 0 \<and> pnl r = 0)) \<and>
   (bs \<noteq> [] \<longrightarrow>
      clearBids toHour bs [] [] \<noteq> [] \<and>
      (\<forall>r\<in>set (clearBids toHour bs [] []).
         daPrice r = None \<and> avgRtPrice r = None \<and> clearedQty r = 0 \<and> pnl r = 0))"
proof (intro conjI ballI impI)
  fix r
  assume "r \<in> set (clearBids toHour bs da rt)"
  then obtain h where
    h: "r = clearHour (bidsByHour bs) (daPricesByHour da)
              (rtPricesByHour (averageRTToHourly toHour rt)) h"
    by (rule in_clearBidsE)
  {
    assume "clear_hourStart r \<notin> datetime_beginning_ept ` set da"
    then have "h \<notin> dom (map_of (daPricesByHour da))"
      by (simp add: h clear_hourStart_clearHour dom_daPricesByHour)
    then show "daPrice r = None"
      by (simp add: h daPrice_clearHour domIff)
  }
  {
    assume "daPrice r = None"
    then have n: "map_of (daPricesByHour da) h = None"
      by (simp add: h daPrice_clearHour)
    show "clearedQty r = 0"
      by (simp add: h clearedQty_clearHour n)
    show "pnl r = 0"
      by (simp add: h pnl_clearHour n)
  }
next
  assume "bs \<noteq> []"
  then have "set (clearBids toHour bs [] []) \<noteq> {}"
    by (simp add: set_clearBids)
  then show "clearBids toHour bs [] [] \<noteq> []"
    by auto
next
  fix r
  assume "r \<in> set (clearBids toHour bs [] [])"
  then obtain h where
    h: "r = clearHour (bidsByHour bs) (daPricesByHour [])
              (rtPricesByHour (averageRTToHourly toHour [])) h"
    by (rule in_clearBidsE)
  have da: "map_of (daPricesByHour []) h = None"
    by (simp add: daPricesByHour_def)
  have rt: "map_of (rtPricesByHour (averageRTToHourly toHour [])) h = None"
    by (simp add: rtPricesByHour_def averageRTToHourly_def hourlyGroups_def)
  show "daPrice r = None"
    by (simp add: h daPrice_clearHour da)
  show "avgRtPrice r = None"
    by (simp add: h avgRtPrice_clearHour rt)
  show "clearedQty r = 0"
    by (simp add: h clearedQty_clearHour da)
  show "pnl r = 0"
    by (simp add: h pnl_clearHour da)
qed

theorem C5_missing_prices_witness:
  "mockNoPrice08 \<in> set (clearBids startOfHour_sameOffset mockBids [] []) \<and>
   clear_hourStart mockNoPrice08 \<notin> datetime_beginning_ept ` set [] \<and>
   daPrice mockNoPrice08 = None \<and> clearedQty mockNoPrice08 = 0 \<and> pnl mockNoPrice08 = 0 \<and>
   mockBids \<noteq> [] \<and>
   clearBids startOfHour_sameOffset mockBids [] [] \<noteq> [] \<and>
   map daPrice (clearBids startOfHour_sameOffset mockBids [] []) = [None, None] \<and>
   map avgRtPrice (clearBids startOfHour_sameOffset mockBids [] []) = [None, None] \<and>
   map clearedQty (clearBids startOfHour_sameOffset mockBids [] []) = [0, 0] \<and>
   map pnl (clearBids startOfHour_sameOffset mockBids [] []) = [0, 0]"
proof -
  note c5 = C5_missing_prices [of startOfHour_sameOffset mockBids "[]" "[]"]
  have mem: "mockNoPrice08 \<in> set (clearBids startOfHour_sameOffset mockBids [] [])"
    by (simp add: clearBids_mock_no_prices mockNoPrice08_def)
  have no_da: "clear_hourStart mockNoPrice08 \<notin> datetime_beginning_ept ` set []"
    by simp
  from c5 mem no_da have da: "daPrice mockNoPrice08 = None"
    by blast
  from c5 mem da have zero: "clearedQty mockNoPrice08 = 0 \<and> pnl mockNoPrice08 = 0"
    by blast
  have ne: "mockBids \<noteq> []"
    by (simp add: mockBids_def)
  from c5 ne have out: "clearBids startOfHour_sameOffset mockBids [] [] \<noteq> []"
    by blast
  have "map daPrice (clearBids startOfHour_sameOffset mockBids [] []) = [None, None] \<and>
   map avgRtPrice (clearBids startOfHour_sameOffset mockBids [] []) = [None, None] \<and>
   map clearedQty (clearBids startOfHour_sameOffset mockBids [] []) = [0, 0] \<and>
   map pnl (clearBids startOfHour_sameOffset mockBids [] []) = [0, 0]"
    by (simp add: clearBids_mock_no_prices)
  with mem no_da da zero ne out show ?thesis
    by blast
qed

section \<open>The reference scenario\<close>

text \<open>
  C6. For the bids BUY 100 MWh at 60 and SELL 50 MWh at 50 in hour 08:00 and BUY 75 MWh
  at 40 in hour 09:00, day-ahead prices 55 and 35, and hourly real-time averages 60 and
  40 (one sample in each hour, which the hour function maps to the hour of the bids),
  the output is hour 08:00 with \<open>clearedQty = 50\<close> and \<open>pnl = 250\<close> and hour 09:00 with
  \<open>clearedQty = 75\<close> and \<open>pnl = 375\<close>, and the summary of that output has total P&L 625,
  long quantity 125, short quantity 0 and 2 hours with positions.
\<close>

theorem C6_reference_scenario:
  assumes "toHour h08 = h08" and "toHour h09 = h09"
  shows "clearBids toHour mockBids mockDAPrices mockRTPrices =
           [\<lparr>clear_hourStart = h08, daPrice = Some 55, avgRtPrice = Some 60,
              clearedQty = 50, pnl = 250\<rparr>,
            \<lparr>clear_hourStart = h09, daPrice = Some 35, avgRtPrice = Some 40,
              clearedQty = 75, pnl = 375\<rparr>] \<and>
         totalPnL (getClearingSummary (clearBids toHour mockBids mockDAPrices mockRTPrices)) = 625 \<and>
         longQty (getClearingSummary (clearBids toHour mockBids mockDAPrices mockRTPrices)) = 125 \<and>
         shortQty (getClearingSummary (clearBids toHour mockBids mockDAPrices mockRTPrices)) = 0 \<and>
         hoursWithPositions
           (getClearingSummary (clearBids toHour mockBids mockDAPrices mockRTPrices)) = 2"
  by (simp add: clearBids_mock [OF assms] mockClear08_def mockClear09_def
      getClearingSummary_def Let_def calculateTotalPnL_def calculateTotalClearedQty_def)

theorem C6_reference_scenario_witness:
  "startOfHour_sameOffset h08 = h08 \<and> startOfHour_sameOffset h09 = h09 \<and>
   clearBids startOfHour_sameOffset mockBids mockDAPrices mockRTPrices =
     [\<lparr>clear_hourStart = h08, daPrice = Some 55, avgRtPrice = Some 60,
        clearedQty = 50, pnl = 250\<rparr>,
      \<lparr>clear_hourStart = h09, daPrice = Some 35, avgRtPrice = Some 40,
        clearedQty = 75, pnl = 375\<rparr>] \<and>
   totalPnL (getClearingSummary
     (clearBids startOfHour_sameOffset mockBids mockDAPrices mockRTPrices)) = 625 \<and>
   longQty (getClearingSummary
     (clearBids startOfHour_sameOffset mockBids mockDAPrices mockRTPrices)) = 125 \<and>
   shortQty (getClearingSummary
     (clearBids startOfHour_sameOffset mockBids mockDAPrices mockRTPrices)) = 0 \<and>
   hoursWithPositions (getClearingSummary
     (clearBids startOfHour_sameOffset mockBids mockDAPrices mockRTPrices)) = 2"
  using C6_reference_scenario [OF startOfHour_sameOffset_mock] startOfHour_sameOffset_mock
  by blast

section \<open>The summary\<close>

text \<open>
  C3. The summary of a list of hourly records has: \<open>totalPnL\<close> the sum of the \<open>pnl\<close>
  values; \<open>totalClearedQty\<close> the sum of the absolute cleared quantities; \<open>longQty\<close> the
  sum of the positive cleared quantities; \<open>shortQty\<close> the sum of the absolute values of
  the negative cleared quantities; \<open>hoursWithPositions\<close> and \<open>hoursWithPnL\<close> the numbers
  of records with nonzero cleared quantity and with nonzero \<open>pnl\<close>; and \<open>avgPnLPerHour\<close>
  the quotient of \<open>totalPnL\<close> by \<open>hoursWithPnL\<close>, which is \<open>0\<close> when \<open>hoursWithPnL\<close> is
  \<open>0\<close>.
\<close>

theorem C3_summary:
  "totalPnL (getClearingSummary cs) = sum_list (map pnl cs) \<and>
   totalClearedQty (getClearingSummary cs) = (\<Sum>c\<leftarrow>cs. \<bar>clearedQty c\<bar>) \<and>
   longQty (getClearingSummary cs) = sum_list (filter (\<lambda>q. q > 0) (map clearedQty cs)) \<and>
   shortQty (getClearingSummary cs) = (\<Sum>q\<leftarrow>filter (\<lambda>q. q < 0) (map clearedQty cs). \<bar>q\<bar>) \<and>
   hoursWithPositions (getClearingSummary cs) = card {i. i < length cs \<and> clearedQty (cs ! i) \<noteq> 0} \<and>
   hoursWithPnL (getClearingSummary cs) = card {i. i < length cs \<and> pnl (cs ! i) \<noteq> 0} \<and>
   avgPnLPerHour (getClearingSummary cs) =
     (if hoursWithPnL (getClearingSummary cs) = 0 then 0
      else totalPnL (getClearingSummary cs) / real (hoursWithPnL (getClearingSummary cs)))"
proof (intro conjI)
  show "totalPnL (getClearingSummary cs) = sum_list (map pnl cs)"
    by (simp add: getClearingSummary_def Let_def calculateTotalPnL_def foldl_plus_sum_list)
  show "totalClearedQty (getClearingSummary cs) = (\<Sum>c\<leftarrow>cs. \<bar>clearedQty c\<bar>)"
    by (simp add: getClearingSummary_def Let_def calculateTotalClearedQty_def foldl_plus_sum_list)
  show "longQty (getClearingSummary cs) = sum_list (filter (\<lambda>q. q > 0) (map clearedQty cs))"
    by (simp add: getClearingSummary_def Let_def foldl_plus_sum_list filter_map comp_def)
  show "shortQty (getClearingSummary cs) =
      (\<Sum>q\<leftarrow>filter (\<lambda>q. q < 0) (map clearedQty cs). \<bar>q\<bar>)"
    by (simp add: getClearingSummary_def Let_def foldl_plus_sum_list filter_map comp_def)
  show "hoursWithPositions (getClearingSummary cs) =
      card {i. i < length cs \<and> clearedQty (cs ! i) \<noteq> 0}"
    by (simp add: getClearingSummary_def Let_def length_filter_conv_card)
  show "hoursWithPnL (getClearingSummary cs) = card {i. i < length cs \<and> pnl (cs ! i) \<noteq> 0}"
    by (simp add: getClearingSummary_def Let_def length_filter_conv_card)
  show "avgPnLPerHour (getClearingSummary cs) =
     (if hoursWithPnL (getClearingSummary cs) = 0 then 0
      else totalPnL (getClearingSummary cs) / real (hoursWithPnL (getClearingSummary cs)))"
    by (simp add: getClearingSummary_def Let_def)
qed

theorem C3_summary_witness:
  "totalPnL (getClearingSummary [mockClear08, mockClear09]) = 250 + 375 \<and>
   longQty (getClearingSummary [mockClear08, mockClear09]) = 50 + 75 \<and>
   shortQty (getClearingSummary [mockClear08, mockClear09]) = 0 \<and>
   hoursWithPnL (getClearingSummary [mockClear08, mockClear09]) = 2 \<and>
   avgPnLPerHour (getClearingSummary [mockClear08, mockClear09]) = 625 / 2 \<and>
   avgPnLPerHour (getClearingSummary []) = 0"
proof -
  have n: "hoursWithPnL (getClearingSummary [mockClear08, mockClear09]) = 2"
    by (simp add: getClearingSummary_def Let_def mockClear08_def mockClear09_def)
  have e: "hoursWithPnL (getClearingSummary []) = 0"
    by (simp add: getClearingSummary_def Let_def)
  show ?thesis
    using C3_summary [of "[mockClear08, mockClear09]"] C3_summary [of "[]"] n e
    by (simp add: mockClear08_def mockClear09_def)
qed

section \<open>Properties of the hourly averager\<close>

























section \<open>The bid store\<close>

lemma addBid_preserves_cap:
  assumes "length (filter (\<lambda>b. hourStart b = h) (bids s)) \<le> 10"
  shows "length (filter (\<lambda>b. hourStart b = h) (bids (addBid uuid bidData s))) \<le> 10"
proof (cases "length (filter (\<lambda>b. hourStart b = hourStart bidData) (bids s)) \<ge> 10")
  case True
  then show ?thesis
    using assms by (simp add: addBid_def Let_def)
next
  case False
  then show ?thesis
    using assms by (cases "hourStart bidData = h") (auto simp: addBid_def Let_def)
qed

lemma removeBid_preserves_cap:
  assumes "length (filter (\<lambda>b. hourStart b = h) (bids s)) \<le> 10"
  shows "length (filter (\<lambda>b. hourStart b = h) (bids (removeBid bidId s))) \<le> 10"
proof -
  have "filter (\<lambda>b. hourStart b = h) (bids (removeBid bidId s)) =
      filter (\<lambda>b. bid_id b \<noteq> bidId) (filter (\<lambda>b. hourStart b = h) (bids s))"
    by (simp add: removeBid_def conj_commute)
  moreover have "length (filter (\<lambda>b. bid_id b \<noteq> bidId) (filter (\<lambda>b. hourStart b = h) (bids s)))
      \<le> length (filter (\<lambda>b. hourStart b = h) (bids s))"
    by (rule length_filter_le)
  ultimately show ?thesis
    using assms by simp
qed

lemma reachable_cap:
  "reachable s \<Longrightarrow> length (filter (\<lambda>b. hourStart b = h) (bids s)) \<le> 10"
proof (induction rule: reachable.induct)
  case reach_init
  show ?case by (simp add: initialState_def)
next
  case (reach_addBid s uuid bidData)
  then show ?case by (simp add: addBid_preserves_cap)
next
  case (reach_removeBid s bidId)
  then show ?case by (simp add: removeBid_preserves_cap)
next
  case (reach_clearBids s)
  show ?case by (simp add: store_clearBids_def)
next
  case (reach_resetForNewDate s)
  show ?case by (simp add: resetForNewDate_def)
qed

text \<open>
  C9. In every state that the store reaches from its initial state by \<open>addBid\<close>,
  \<open>removeBid\<close>, \<open>clearBids\<close> and \<open>resetForNewDate\<close>, every hour has at most 10 bids; and
  \<open>addBid\<close> on a state that holds 10 bids (or more) for the hour of the new bid leaves the
  bid list as it is and sets the error message.
\<close>

theorem C9_at_most_ten_bids_per_hour:
  "(reachable s \<longrightarrow> length (filter (\<lambda>b. hourStart b = h) (bids s)) \<le> 10) \<and>
   (length (filter (\<lambda>b. hourStart b = hourStart bidData) (bids s)) \<ge> 10 \<longrightarrow>
      bids (addBid uuid bidData s) = bids s \<and>
      error (addBid uuid bidData s) = Some ''Maximum 10 bids per hour allowed'')"
  by (simp add: reachable_cap addBid_def Let_def)

lemma reachable_fullHourState: "reachable fullHourState"
  unfolding fullHourState_def foldl.simps
  by (intro reachable.intros)

lemma bids_fullHourState:
  "map bid_id (bids fullHourState) = [''a'', ''b'', ''c'', ''d'', ''e'', ''f'', ''g'', ''h'', ''i'', ''j'']"
  "filter (\<lambda>b. hourStart b = h08) (bids fullHourState) = bids fullHourState"
  by (simp_all add: fullHourState_def addBid_def Let_def initialState_def bidData08_def)

theorem C9_at_most_ten_bids_per_hour_witness:
  "reachable fullHourState \<and>
   length (filter (\<lambda>b. hourStart b = h08) (bids fullHourState)) = 10 \<and>
   length (filter (\<lambda>b. hourStart b = h08) (bids fullHourState)) \<le> 10 \<and>
   bids (addBid ''k'' bidData08 fullHourState) = bids fullHourState \<and>
   error (addBid ''k'' bidData08 fullHourState) = Some ''Maximum 10 bids per hour allowed''"
proof -
  have len: "length (filter (\<lambda>b. hourStart b = h08) (bids fullHourState)) = 10"
    using arg_cong [OF bids_fullHourState(1), of length]
    by (simp add: bids_fullHourState(2))
  have hs: "hourStart bidData08 = h08"
    by (simp add: bidData08_def)
  from len hs have ge: "length (filter (\<lambda>b. hourStart b = hourStart bidData08)
      (bids fullHourState)) \<ge> 10"
    by simp
  from C9_at_most_ten_bids_per_hour [of fullHourState h08 bidData08 "''k''"]
    reachable_fullHourState ge len
  show ?thesis
    by blast
qed

section \<open>The cutoff\<close>

lemma isCutoffPassed_strict:
  "isCutoffPassed (getCutoffStatus defaultOffset marketOffset now d) \<longleftrightarrow>
     now > ts (cutoffTime (getCutoffStatus defaultOffset marketOffset now d))"
  by (simp add: getCutoffStatus_def Let_def getCurrentMarketTime_def setZone_def)

lemma ts_getCutoffTime:
  "ts (getCutoffTime defaultOffset marketOffset d) =
     ((days_from_civil d * 86400000 + (marketOffset - defaultOffset) * 60000) div 86400000)
       * 86400000 + 11 * 3600000 - marketOffset * 60000"
  by (simp add: getCutoffTime_def set_time_def setZone_def fromISO_date_def localTS_def
      CUTOFF_HOUR_def CUTOFF_MINUTE_def algebra_simps)

text \<open>
  When the process runs in the market zone, or in a zone west of it, the cutoff is the
  one of the specification.
\<close>

lemma getCutoffTime_not_east:
  assumes "defaultOffset \<le> marketOffset" and "marketOffset - defaultOffset < 1440"
  shows "ts (getCutoffTime defaultOffset marketOffset d) = spec_cutoffInstant marketOffset d"
proof -
  let ?k = "(marketOffset - defaultOffset) * 60000"
  from assms have "0 \<le> ?k" "?k < 86400000" by simp_all
  then have "(days_from_civil d * 86400000 + ?k) div 86400000 = days_from_civil d"
    by simp
  then show ?thesis
    by (simp add: ts_getCutoffTime spec_cutoffInstant_def)
qed

text \<open>
  When the process runs in a zone east of the market zone, midnight of the trading date
  in that zone is still the previous day in the market zone, and the cutoff is 11:00 of
  the previous day.
\<close>

lemma getCutoffTime_east:
  assumes "marketOffset < defaultOffset" and "defaultOffset - marketOffset \<le> 1440"
  shows "ts (getCutoffTime defaultOffset marketOffset d) =
           spec_cutoffInstant marketOffset d - 86400000"
proof -
  let ?k = "(marketOffset - defaultOffset) * 60000 + 86400000"
  from assms have k: "0 \<le> ?k" "?k < 86400000" by simp_all
  have "days_from_civil d * 86400000 + (marketOffset - defaultOffset) * 60000 =
      (days_from_civil d - 1) * 86400000 + ?k"
    by (simp add: algebra_simps)
  then have "(days_from_civil d * 86400000 + (marketOffset - defaultOffset) * 60000) div 86400000 =
      ((days_from_civil d - 1) * 86400000 + ?k) div 86400000"
    by (simp only:)
  also from k have "\<dots> = days_from_civil d - 1"
    by simp
  finally show ?thesis
    by (simp add: ts_getCutoffTime spec_cutoffInstant_def algebra_simps)
qed

text \<open>
  C7. The claim is that for a bare calendar date the cutoff is 11:00:00.000 market-local
  time on that same date, and that \<open>isCutoffPassed\<close> holds exactly when the current
  instant is after it. The comparison is strict (\<open>isCutoffPassed_strict\<close>), but the date
  is read in the zone of the process, not in the market zone. In a process on UTC, for
  trading date 2024-01-01 and market offset -06:00, the cutoff computed is 11:00 market
  time on 2023-12-31, a day before the cutoff of the specification; at 10:00 market time
  on 2024-01-01, an hour before that cutoff, the status is already "closed".
\<close>

theorem C7_cutoff_on_previous_day_under_utc:
  "ts (cutoffTime (getCutoffStatus 0 (- 360) tenAM_CST_newYear2024 newYear2024)) =
     spec_cutoffInstant (- 360) newYear2024 - 86400000 \<and>
   tenAM_CST_newYear2024 < spec_cutoffInstant (- 360) newYear2024 \<and>
   isCutoffPassed (getCutoffStatus 0 (- 360) tenAM_CST_newYear2024 newYear2024) \<and>
   timeToString (getCutoffStatus 0 (- 360) tenAM_CST_newYear2024 newYear2024) =
     ''Order entry closed''"
proof -
  have d: "days_from_civil newYear2024 = 19723"
    by (simp add: days_from_civil_def newYear2024_def Let_def)
  have c: "ts (getCutoffTime 0 (- 360) newYear2024) = 19722 * 86400000 + 17 * 3600000"
    by (simp add: ts_getCutoffTime d)
  show ?thesis
    by (simp add: getCutoffStatus_def Let_def c getCurrentMarketTime_def setZone_def
        spec_cutoffInstant_def d tenAM_CST_newYear2024_def)
qed

end
